theory Spec2Isabelle
  imports Complex_Main
begin

section \<open>Values\<close>

text \<open>
  The validator of \<^verbatim>\<open>submitty_schema_validator.py\<close> works on what \<^verbatim>\<open>json.load\<close>
  returns: \<^verbatim>\<open>None\<close>, booleans, numbers, strings, lists and dictionaries with string
  keys. Python's \<^verbatim>\<open>None\<close> and JSON's \<^verbatim>\<open>null\<close> are the same value, \<open>JNull\<close>.
  A dictionary is an association list in insertion order; \<^verbatim>\<open>json.load\<close> keeps one
  entry per key. The validator never looks inside a number: it only hands it on.
\<close>

datatype json =
    JNull
  | JBool bool
  | JInt int
  | JFloat rat
  | JStr string
  | JArr "json list"
  | JObj "(string \<times> json) list"

text \<open>
  \<open>my_message\<close> is a string on the non-conformance path (line 140) and a pair of
  strings on the missing-specification path (lines 125-126, where the comma makes
  a tuple).
\<close>

datatype message = Msg string | MsgTuple string string

text \<open>The attributes set by \<^verbatim>\<open>SubmittySchemaException.__init__\<close> (lines 17-21).\<close>

record violation =
  config_json :: json
  schema :: json
  my_message :: message
  title :: string
  schema_message :: "string option"

datatype error =
    SubmittySchemaException violation
  | AttributeError
  | KeyError string
  | TypeError
  | SchemaError string

text \<open>
  The last argument of the constructor: \<^verbatim>\<open>None\<close>, or an error object whose
  \<^verbatim>\<open>message\<close> attribute is a string or \<^verbatim>\<open>None\<close>.
\<close>

datatype schema_error = NoneObject | ErrorObject "string option"

text \<open>
  \<^verbatim>\<open>jsonschema.validate\<close> is a library function: it returns, raises
  \<^verbatim>\<open>ValidationError\<close> with a message, or raises \<^verbatim>\<open>SchemaError\<close> on a schema that is
  not a schema. It is a parameter of the model.
\<close>

datatype match_result = Valid | ValidationError string | InvalidSchema string

type_synonym matcher = "json \<Rightarrow> json \<Rightarrow> match_result"

text \<open>
  What a run leaves behind: the lines printed to the two streams and, in order, the
  (instance, schema) pairs handed to \<^verbatim>\<open>jsonschema.validate\<close>.
\<close>

record world =
  stdout :: "string list"
  stderr :: "string list"
  matcher_calls :: "(json \<times> json) list"

type_synonym 'a prog = "world \<Rightarrow> (error + 'a) \<times> world"

definition and_then :: "'a prog \<Rightarrow> ('a \<Rightarrow> 'b prog) \<Rightarrow> 'b prog" where
  "and_then p f w = (case p w of (Inl e, w') \<Rightarrow> (Inl e, w') | (Inr a, w') \<Rightarrow> f a w')"

definition lift :: "error + 'a \<Rightarrow> 'a prog" where
  "lift r w = (r, w)"

definition print_stdout :: "string \<Rightarrow> world \<Rightarrow> world" where
  "print_stdout line w = w\<lparr>stdout := stdout w @ [line]\<rparr>"

definition print_stderr :: "string \<Rightarrow> world \<Rightarrow> world" where
  "print_stderr line w = w\<lparr>stderr := stderr w @ [line]\<rparr>"

section \<open>Python's operations on values\<close>

text \<open>
  \<^verbatim>\<open>j_.get(key, None) if j_ is not None else j_\<close> (lines 118-119): only a dictionary
  has \<^verbatim>\<open>get\<close>; a missing key and a key bound to \<^verbatim>\<open>null\<close> both give \<^verbatim>\<open>None\<close>.
\<close>

definition get_or_none :: "json \<Rightarrow> string \<Rightarrow> error + json" where
  "get_or_none j key =
     (case j of
        JNull \<Rightarrow> Inr JNull
      | JObj kvs \<Rightarrow> Inr (case map_of kvs key of None \<Rightarrow> JNull | Some v \<Rightarrow> v)
      | _ \<Rightarrow> Inl AttributeError)"

text \<open>\<^verbatim>\<open>j[key]\<close> with a string key: a dictionary raises KeyError on a missing key,
  every other value raises TypeError.\<close>

definition subscript :: "json \<Rightarrow> string \<Rightarrow> error + json" where
  "subscript j key =
     (case j of
        JObj kvs \<Rightarrow> (case map_of kvs key of None \<Rightarrow> Inl (KeyError key) | Some v \<Rightarrow> Inr v)
      | _ \<Rightarrow> Inl TypeError)"

text \<open>\<^verbatim>\<open>for x in j\<close>: a list gives its elements, a dictionary its keys, a string its
  characters; nothing else can be iterated.\<close>

definition py_iter :: "json \<Rightarrow> error + json list" where
  "py_iter j =
     (case j of
        JArr xs \<Rightarrow> Inr xs
      | JObj kvs \<Rightarrow> Inr (map (\<lambda>kv. JStr (fst kv)) kvs)
      | JStr s \<Rightarrow> Inr (map (\<lambda>c. JStr [c]) s)
      | _ \<Rightarrow> Inl TypeError)"

text \<open>\<^verbatim>\<open>str(n)\<close> of a non-negative integer, for \<^verbatim>\<open>f'testcase_{testcase_num}'\<close>.\<close>

fun digit_char :: "nat \<Rightarrow> char" where
  "digit_char n = ''0123456789'' ! (n mod 10)"

fun str_nat :: "nat \<Rightarrow> string" where
  "str_nat n = (if n < 10 then [digit_char n] else str_nat (n div 10) @ [digit_char n])"

declare str_nat.simps [simp del]

section \<open>SubmittySchemaException\<close>

text \<open>
  \<^verbatim>\<open>__init__\<close> (lines 14-21) reads \<^verbatim>\<open>schema_error.message\<close> first, at line 16: with
  \<^verbatim>\<open>None\<close> for \<^verbatim>\<open>schema_error\<close> that read raises AttributeError and no
  SubmittySchemaException comes to exist. The result is the exception that the
  statement \<^verbatim>\<open>raise SubmittySchemaException(...)\<close> raises.
\<close>

definition new_SubmittySchemaException ::
  "json \<Rightarrow> json \<Rightarrow> message \<Rightarrow> string \<Rightarrow> schema_error \<Rightarrow> error" where
  "new_SubmittySchemaException config_json' schema' message' title' schema_error' =
     (case schema_error' of
        NoneObject \<Rightarrow> AttributeError
      | ErrorObject m \<Rightarrow>
          SubmittySchemaException
            \<lparr>config_json = config_json', schema = schema', my_message = message',
             title = title', schema_message = m\<rparr>)"

text \<open>
  \<^verbatim>\<open>f'{self.my_message}:'\<close>: a string is printed as it is, a tuple as its
  \<^verbatim>\<open>repr\<close>. \<^verbatim>\<open>repr\<close> of a string and \<^verbatim>\<open>json.dumps(..., indent=4)\<close> are library
  functions, parameters here.
\<close>

fun format_message :: "(string \<Rightarrow> string) \<Rightarrow> message \<Rightarrow> string" where
  "format_message repr (Msg s) = s"
| "format_message repr (MsgTuple a b) = ''('' @ repr a @ '', '' @ repr b @ '')''"

definition print_human_readable_error ::
  "(string \<Rightarrow> string) \<Rightarrow> (json \<Rightarrow> string) \<Rightarrow> violation \<Rightarrow> world \<Rightarrow> world" where
  "print_human_readable_error repr dumps self w =
     (let w1 = print_stderr [] w;
          w2 = print_stderr (format_message repr (my_message self) @ '':'') w1
      in case schema_message self of
           None \<Rightarrow> w2
         | Some m \<Rightarrow>
             print_stderr (dumps (config_json self))
               (print_stderr
                  ''The portion of your configuration that caused the error is:''
                  (print_stderr m w2)))"

section \<open>validate\_schema\<close>

text \<open>Lines 117-122: the chunk of the document and the chunk of the schema.\<close>

definition resolve :: "json \<Rightarrow> json \<Rightarrow> string \<Rightarrow> error + (json \<times> json)" where
  "resolve j s key =
     (if key \<noteq> [] then
        (case get_or_none j key of
           Inl e \<Rightarrow> Inl e
         | Inr my_json_chunk \<Rightarrow>
             (case get_or_none s key of
                Inl e \<Rightarrow> Inl e
              | Inr my_schema \<Rightarrow> Inr (my_json_chunk, my_schema)))
      else Inr (j, s))"

text \<open>Lines 109-145; \<open>j\<close> and \<open>s\<close> stand for \<^verbatim>\<open>j_\<close> and \<^verbatim>\<open>s_\<close>. \<open>required\<close> is a
  parameter of the source, read nowhere in it.\<close>

definition validate_schema ::
  "matcher \<Rightarrow> json \<Rightarrow> json \<Rightarrow> string \<Rightarrow> string \<Rightarrow> bool \<Rightarrow> bool \<Rightarrow> unit prog" where
  "validate_schema validate j s key prefix required warn w =
     (let descriptive_title = prefix @ '' '' @ key in
      case resolve j s key of
        Inl e \<Rightarrow> (Inl e, w)
      | Inr (my_json_chunk, my_schema) \<Rightarrow>
          if my_schema = JNull then
            (Inl (new_SubmittySchemaException j s
                    (MsgTuple (''ERROR: There is no specification for '' @ key
                                 @ '' in the schema.'')
                              '' Please add a specification.'')
                    descriptive_title NoneObject), w)
          else if my_json_chunk = JNull then
            (Inr (),
             if warn then
               print_stdout (''WARNING: could not identify '' @ descriptive_title
                               @ '' ('' @ key @ '')'') w
             else w)
          else
            (let w' = w\<lparr>matcher_calls := matcher_calls w @ [(my_json_chunk, my_schema)]\<rparr>
             in case validate my_json_chunk my_schema of
                  Valid \<Rightarrow> (Inr (), w')
                | ValidationError m \<Rightarrow>
                    (Inl (new_SubmittySchemaException my_json_chunk my_schema
                            (Msg (''ERROR: '' @ descriptive_title
                                    @ '' was not properly formatted''))
                            descriptive_title (ErrorObject (Some m))), w')
                | InvalidSchema m \<Rightarrow> (Inl (SchemaError m), w')))"

section \<open>complete\_config\_validator\<close>

text \<open>The two fixed key lists (lines 45-46 and 79-83).\<close>

definition global_keys :: "string list" where
  "global_keys = [''autograding'', ''autograding_method'', ''container_options'',
                  ''resource_limits'']"

definition testcase_keys :: "string list" where
  "testcase_keys = [''dispatcher_actions'', ''actions'', ''points'', ''type'',
                    ''pre_commands'', ''single_port_per_container'',
                    ''use_router'', ''title'', ''hidden'', ''extra_credit'',
                    ''input_generation_commands'', ''executable_name'',
                    ''testcase_label'']"

text \<open>\<^verbatim>\<open>for key in [...]: validate_schema(j_, s, key, prefix, warn=warn)\<close>
  (lines 45-47 and 79-84); \<open>required\<close> keeps its default, \<open>True\<close>.\<close>

fun validate_keys ::
  "matcher \<Rightarrow> json \<Rightarrow> json \<Rightarrow> string list \<Rightarrow> string \<Rightarrow> bool \<Rightarrow> unit prog" where
  "validate_keys validate j s [] prefix warn w = (Inr (), w)"
| "validate_keys validate j s (key # keys) prefix warn w =
     (case validate_schema validate j s key prefix True warn w of
        (Inl e, w') \<Rightarrow> (Inl e, w')
      | (Inr _, w') \<Rightarrow> validate_keys validate j s keys prefix warn w')"

text \<open>\<^verbatim>\<open>for c in containers: validate_schema(c, c_schema, prefix=t_name, warn=warn)\<close>
  (lines 88-89 and 92-93).\<close>

fun validate_each :: "matcher \<Rightarrow> json list \<Rightarrow> json \<Rightarrow> string \<Rightarrow> bool \<Rightarrow> unit prog" where
  "validate_each validate [] s prefix warn w = (Inr (), w)"
| "validate_each validate (c # cs) s prefix warn w =
     (case validate_schema validate c s [] prefix True warn w of
        (Inl e, w') \<Rightarrow> (Inl e, w')
      | (Inr _, w') \<Rightarrow> validate_each validate cs s prefix warn w')"

text \<open>Lines 98-101; the counter \<^verbatim>\<open>validator_num\<close> is written and never read.\<close>

fun validate_validators ::
  "matcher \<Rightarrow> json list \<Rightarrow> json \<Rightarrow> json \<Rightarrow> string \<Rightarrow> bool \<Rightarrow> unit prog" where
  "validate_validators validate [] abs_v spec_v prefix warn w = (Inr (), w)"
| "validate_validators validate (v # vs) abs_v spec_v prefix warn w =
     (case validate_schema validate v abs_v [] prefix True warn w of
        (Inl e, w') \<Rightarrow> (Inl e, w')
      | (Inr _, w') \<Rightarrow>
          (case validate_schema validate v spec_v [] prefix True warn w' of
             (Inl e, w'') \<Rightarrow> (Inl e, w'')
           | (Inr _, w'') \<Rightarrow> validate_validators validate vs abs_v spec_v prefix warn w''))"

text \<open>
  Lines 66-72, the loop over \<^verbatim>\<open>[sub_limit_schema, filecheck_schema]\<close>. The state
  of the loop is \<^verbatim>\<open>(testcase_num, success)\<close>. Only SubmittySchemaException is
  caught; the loop has no \<^verbatim>\<open>break\<close>.
\<close>

fun try_extra_schemas ::
  "matcher \<Rightarrow> json \<Rightarrow> json list \<Rightarrow> bool \<Rightarrow> nat \<times> bool \<Rightarrow> (nat \<times> bool) prog" where
  "try_extra_schemas validate t [] warn (testcase_num, success) w =
     (Inr (testcase_num, success), w)"
| "try_extra_schemas validate t (extra_schema # rest) warn (testcase_num, success) w =
     (case validate_schema validate t extra_schema [] [] False warn w of
        (Inr _, w') \<Rightarrow> try_extra_schemas validate t rest warn (testcase_num + 1, True) w'
      | (Inl (SubmittySchemaException _), w') \<Rightarrow>
          try_extra_schemas validate t rest warn (testcase_num, success) w'
      | (Inl e, w') \<Rightarrow> (Inl e, w'))"

text \<open>The schema fragments read at lines 51-57.\<close>

record definitions =
  t_s :: json
  p_s :: json
  sub_limit_schema :: json
  filecheck_schema :: json
  c_schema :: json
  abs_v_schema :: json
  spec_v_schema :: json

text \<open>Lines 77-104: a testcase that neither extra schema accepted. The result is
  the new \<^verbatim>\<open>testcase_num\<close>.\<close>

definition regular_testcase :: "matcher \<Rightarrow> definitions \<Rightarrow> json \<Rightarrow> nat \<Rightarrow> bool \<Rightarrow> nat prog" where
  "regular_testcase validate d t testcase_num warn =
     (let t_name = ''testcase_'' @ str_nat testcase_num in
      and_then (validate_keys validate t (p_s d) testcase_keys t_name warn) (\<lambda>_.
      and_then (lift (subscript t ''containers'')) (\<lambda>containers.
      and_then (lift (py_iter containers)) (\<lambda>cs.
      and_then (validate_each validate cs (c_schema d) t_name warn) (\<lambda>_.
      and_then (lift (subscript t ''solution_containers'')) (\<lambda>solution_containers.
      and_then (lift (py_iter solution_containers)) (\<lambda>scs.
      and_then (validate_each validate scs (c_schema d) t_name warn) (\<lambda>_.
      and_then (lift (subscript t ''validation'')) (\<lambda>validators.
      and_then (lift (py_iter validators)) (\<lambda>vs.
      and_then (validate_validators validate vs (abs_v_schema d) (spec_v_schema d)
                  t_name warn) (\<lambda>_.
      and_then (validate_schema validate t (t_s d) [] t_name True warn) (\<lambda>_.
      lift (Inr (testcase_num + 1))))))))))))))"

text \<open>Lines 61-104: one pass of the loop over the testcases.\<close>

definition validate_testcase :: "matcher \<Rightarrow> definitions \<Rightarrow> json \<Rightarrow> nat \<Rightarrow> bool \<Rightarrow> nat prog" where
  "validate_testcase validate d t testcase_num warn =
     and_then (try_extra_schemas validate t [sub_limit_schema d, filecheck_schema d] warn
                 (testcase_num, False))
       (\<lambda>(testcase_num', success).
          if success then lift (Inr testcase_num')
          else regular_testcase validate d t testcase_num' warn)"

fun validate_testcases ::
  "matcher \<Rightarrow> definitions \<Rightarrow> json list \<Rightarrow> nat \<Rightarrow> bool \<Rightarrow> nat prog" where
  "validate_testcases validate d [] testcase_num warn w = (Inr testcase_num, w)"
| "validate_testcases validate d (t # ts) testcase_num warn w =
     (case validate_testcase validate d t testcase_num warn w of
        (Inl e, w') \<Rightarrow> (Inl e, w')
      | (Inr testcase_num', w') \<Rightarrow> validate_testcases validate d ts testcase_num' warn w')"

text \<open>\<^verbatim>\<open>s_['definitions'][name]\<close>.\<close>

definition schema_definition :: "json \<Rightarrow> string \<Rightarrow> error + json" where
  "schema_definition s name =
     (case subscript s ''definitions'' of
        Inl e \<Rightarrow> Inl e
      | Inr defs \<Rightarrow> subscript defs name)"

text \<open>Lines 51-57, in the order of the source.\<close>

definition load_definitions :: "json \<Rightarrow> definitions prog" where
  "load_definitions s =
     and_then (lift (schema_definition s ''testcase'')) (\<lambda>t_s'.
     and_then (lift (subscript t_s' ''properties'')) (\<lambda>p_s'.
     and_then (lift (schema_definition s ''submission_limit'')) (\<lambda>sub_limit_schema'.
     and_then (lift (schema_definition s ''filecheck'')) (\<lambda>filecheck_schema'.
     and_then (lift (schema_definition s ''container'')) (\<lambda>c_schema'.
     and_then (lift (schema_definition s ''abstract_validation_object'')) (\<lambda>abs_v_schema'.
     and_then (lift (schema_definition s ''validator_definitions'')) (\<lambda>spec_v_schema'.
     lift (Inr \<lparr>t_s = t_s', p_s = p_s', sub_limit_schema = sub_limit_schema',
                filecheck_schema = filecheck_schema', c_schema = c_schema',
                abs_v_schema = abs_v_schema', spec_v_schema = spec_v_schema'\<rparr>))))))))"

text \<open>Lines 43-47: the global step.\<close>

definition global_step :: "matcher \<Rightarrow> json \<Rightarrow> json \<Rightarrow> bool \<Rightarrow> unit prog" where
  "global_step validate j s warn =
     and_then (lift (subscript s ''properties'')) (\<lambda>s_prop.
     validate_keys validate j s_prop global_keys ''global'' warn)"

text \<open>Lines 50-104: the testcase loop with what it reads first.\<close>

definition testcase_step :: "matcher \<Rightarrow> json \<Rightarrow> json \<Rightarrow> bool \<Rightarrow> unit prog" where
  "testcase_step validate j s warn =
     and_then (lift (subscript j ''testcases'')) (\<lambda>testcases.
     and_then (load_definitions s) (\<lambda>d.
     and_then (lift (py_iter testcases)) (\<lambda>ts.
     and_then (validate_testcases validate d ts 1 warn) (\<lambda>_.
     lift (Inr ())))))"

text \<open>Lines 43-104: everything before the last statement.\<close>

definition piecewise_checks :: "matcher \<Rightarrow> json \<Rightarrow> json \<Rightarrow> bool \<Rightarrow> unit prog" where
  "piecewise_checks validate j s warn =
     and_then (global_step validate j s warn) (\<lambda>_. testcase_step validate j s warn)"

text \<open>Lines 34-106.\<close>

definition complete_config_validator :: "matcher \<Rightarrow> json \<Rightarrow> json \<Rightarrow> bool \<Rightarrow> unit prog" where
  "complete_config_validator validate j s warn =
     and_then (piecewise_checks validate j s warn) (\<lambda>_.
     validate_schema validate j s [] ''Your config json'' True warn)"

section \<open>A sample Matcher and sample documents\<close>

text \<open>
  To run the validator on concrete documents the parameter needs a value. The sample
  Matcher knows the boolean schemas and two keywords of JSON Schema, \<^verbatim>\<open>type\<close> (one
  type name) and \<^verbatim>\<open>required\<close>; a schema that is neither a dictionary nor a boolean
  is not a schema. The texts of its messages are short ones of its own: the validator
  only carries a message along.
\<close>

fun has_type :: "string \<Rightarrow> json \<Rightarrow> bool" where
  "has_type tn JNull = (tn = ''null'')"
| "has_type tn (JBool b) = (tn = ''boolean'')"
| "has_type tn (JInt i) = (tn = ''integer'' \<or> tn = ''number'')"
| "has_type tn (JFloat r) = (tn = ''number'' \<or> (tn = ''integer'' \<and> of_int \<lfloor>r\<rfloor> = r))"
| "has_type tn (JStr x) = (tn = ''string'')"
| "has_type tn (JArr xs) = (tn = ''array'')"
| "has_type tn (JObj kvs) = (tn = ''object'')"

fun missing_names :: "json list \<Rightarrow> json \<Rightarrow> string list" where
  "missing_names names (JObj kvs) =
     concat (map (\<lambda>n. case n of
                          JStr k \<Rightarrow> (if map_of kvs k = None then [k] else [])
                        | _ \<Rightarrow> []) names)"
| "missing_names names d = []"

definition check_required :: "(string \<times> json) list \<Rightarrow> json \<Rightarrow> match_result" where
  "check_required skvs d =
     (case map_of skvs ''required'' of
        Some (JArr names) \<Rightarrow>
          (case missing_names names d of
             [] \<Rightarrow> Valid
           | k # _ \<Rightarrow> ValidationError (k @ '' is a required property''))
      | _ \<Rightarrow> Valid)"

definition sample_validate :: matcher where
  "sample_validate d s =
     (case s of
        JBool b \<Rightarrow> (if b then Valid else ValidationError ''False schema allows nothing'')
      | JObj skvs \<Rightarrow>
          (case map_of skvs ''type'' of
             Some (JStr tn) \<Rightarrow>
               (if has_type tn d then check_required skvs d
                else ValidationError (''not of type '' @ tn))
           | _ \<Rightarrow> check_required skvs d)
      | _ \<Rightarrow> InvalidSchema ''not a schema'')"

definition of_type :: "string \<Rightarrow> json" where
  "of_type tn = JObj [(''type'', JStr tn)]"

definition sample_sub_limit :: json where
  "sample_sub_limit =
     JObj [(''type'', JStr ''object''), (''required'', JArr [JStr ''max_submissions''])]"

definition sample_filecheck :: json where
  "sample_filecheck =
     JObj [(''type'', JStr ''object''), (''required'', JArr [JStr ''actual_file''])]"

definition sample_testcase_properties :: json where
  "sample_testcase_properties =
     JObj [(''dispatcher_actions'', of_type ''array''), (''actions'', of_type ''array''),
           (''points'', of_type ''integer''), (''type'', of_type ''string''),
           (''pre_commands'', of_type ''array''),
           (''single_port_per_container'', of_type ''boolean''),
           (''use_router'', of_type ''boolean''), (''title'', of_type ''string''),
           (''hidden'', of_type ''boolean''), (''extra_credit'', of_type ''boolean''),
           (''input_generation_commands'', of_type ''array''),
           (''executable_name'', of_type ''string''),
           (''testcase_label'', of_type ''string'')]"

definition sample_testcase_schema :: json where
  "sample_testcase_schema =
     JObj [(''type'', JStr ''object''), (''properties'', sample_testcase_properties)]"

definition sample_properties :: json where
  "sample_properties =
     JObj [(''autograding'', of_type ''object''),
           (''autograding_method'', of_type ''string''),
           (''container_options'', of_type ''object''),
           (''resource_limits'', of_type ''object'')]"

definition sample_definitions :: json where
  "sample_definitions =
     JObj [(''testcase'', sample_testcase_schema),
           (''submission_limit'', sample_sub_limit),
           (''filecheck'', sample_filecheck),
           (''container'', of_type ''object''),
           (''abstract_validation_object'', of_type ''object''),
           (''validator_definitions'', of_type ''object'')]"

text \<open>A schema document; the whole document must name the assignment.\<close>

definition sample_schema :: json where
  "sample_schema =
     JObj [(''type'', JStr ''object''),
           (''required'', JArr [JStr ''assignment_name'']),
           (''properties'', sample_properties),
           (''definitions'', sample_definitions)]"

definition sample_defs :: definitions where
  "sample_defs =
     \<lparr>t_s = sample_testcase_schema, p_s = sample_testcase_properties,
      sub_limit_schema = sample_sub_limit, filecheck_schema = sample_filecheck,
      c_schema = of_type ''object'', abs_v_schema = of_type ''object'',
      spec_v_schema = of_type ''object''\<rparr>"

definition empty_world :: world where
  "empty_world = \<lparr>stdout = [], stderr = [], matcher_calls = []\<rparr>"

text \<open>A regular testcase with the three lists the driver reads.\<close>

definition regular_entry :: "json \<Rightarrow> json" where
  "regular_entry points =
     JObj [(''points'', points), (''containers'', JArr []),
           (''solution_containers'', JArr []), (''validation'', JArr [])]"

text \<open>A stand-in for \<^verbatim>\<open>json.dumps(..., indent=4)\<close>, right on the empty dictionary
  and the empty list, the values it meets below.\<close>

definition sample_dumps :: "json \<Rightarrow> string" where
  "sample_dumps j = (if j = JObj [] then ''{}'' else ''[]'')"

section \<open>Notions used to state the properties\<close>

text \<open>
  What the specification calls a trimmed string: Python's \<^verbatim>\<open>str.strip()\<close>. The
  source calls no such function; the definition is here to compare with it.
\<close>

definition is_space :: "char \<Rightarrow> bool" where
  "is_space c = (c = CHR '' '' \<or> c = CHR 0x09 \<or> c = CHR 0x0A \<or> c = CHR 0x0B
                 \<or> c = CHR 0x0C \<or> c = CHR 0x0D)"

definition trimmed :: "string \<Rightarrow> string" where
  "trimmed s = rev (dropWhile is_space (rev (dropWhile is_space s)))"

text \<open>
  Two programs are related under a relation \<open>R\<close> on worlds when, started in related
  worlds, they return or raise the same and end in related worlds.
\<close>

definition related :: "(world \<Rightarrow> world \<Rightarrow> bool) \<Rightarrow> 'a prog \<Rightarrow> 'a prog \<Rightarrow> bool" where
  "related R p q =
     (\<forall>w w'. R w w' \<longrightarrow> fst (p w) = fst (q w') \<and> R (snd (p w)) (snd (q w')))"

text \<open>A line that starts as the diagnostic line of line 134 does.\<close>

definition is_warning :: "string \<Rightarrow> bool" where
  "is_warning l = (take 28 l = ''WARNING: could not identify '')"

text \<open>The first world is the second one with some more WARNING lines at the end of
  the normal output, and nothing else changed.\<close>

definition warned :: "world \<Rightarrow> world \<Rightarrow> bool" where
  "warned w w' =
     (stderr w = stderr w' \<and> matcher_calls w = matcher_calls w' \<and>
      (\<exists>ws. stdout w = stdout w' @ ws \<and> list_all is_warning ws))"

text \<open>One world, whose two streams hold the given lines.\<close>

definition printed :: "string list \<Rightarrow> string list \<Rightarrow> world \<Rightarrow> world \<Rightarrow> bool" where
  "printed out err w w' = (w' = w \<and> stdout w = out \<and> stderr w = err)"

section \<open>Sequencing\<close>

lemma and_then_Inl: "p w = (Inl e, w') \<Longrightarrow> and_then p f w = (Inl e, w')"
  by (simp add: and_then_def)

lemma and_then_Inr: "p w = (Inr a, w') \<Longrightarrow> and_then p f w = f a w'"
  by (simp add: and_then_def)

lemma and_then_lift_Inl [simp]: "and_then (lift (Inl e)) f w = (Inl e, w)"
  by (simp add: and_then_def lift_def)

lemma and_then_lift_Inr [simp]: "and_then (lift (Inr a)) f w = f a w"
  by (simp add: and_then_def lift_def)

lemma and_then_returns:
  assumes "and_then p f w = (Inr b, w2)"
  obtains a w1 where "p w = (Inr a, w1)" and "f a w1 = (Inr b, w2)"
  using assms by (auto simp: and_then_def split: prod.splits sum.splits)

lemma validate_keys_Cons:
  "validate_keys validate j s (key # keys) prefix warn =
   and_then (validate_schema validate j s key prefix True warn)
     (\<lambda>_. validate_keys validate j s keys prefix warn)"
  by (rule ext) (simp add: and_then_def split: prod.splits sum.splits)

lemma validate_each_Cons:
  "validate_each validate (c # cs) s prefix warn =
   and_then (validate_schema validate c s [] prefix True warn)
     (\<lambda>_. validate_each validate cs s prefix warn)"
  by (rule ext) (simp add: and_then_def split: prod.splits sum.splits)

lemma validate_validators_Cons:
  "validate_validators validate (v # vs) abs_v spec_v prefix warn =
   and_then (validate_schema validate v abs_v [] prefix True warn) (\<lambda>_.
   and_then (validate_schema validate v spec_v [] prefix True warn) (\<lambda>_.
   validate_validators validate vs abs_v spec_v prefix warn))"
  by (rule ext) (simp add: and_then_def split: prod.splits sum.splits)

lemma validate_testcases_Cons:
  "validate_testcases validate d (t # ts) n warn =
   and_then (validate_testcase validate d t n warn)
     (\<lambda>n'. validate_testcases validate d ts n' warn)"
  by (rule ext) (simp add: and_then_def split: prod.splits sum.splits)



text \<open>When everything before the last statement has returned, the document and the
  schema are dictionaries.\<close>

lemma subscript_returns: "subscript j key = Inr v \<Longrightarrow> j \<noteq> JNull"
  by (auto simp: subscript_def)

lemma piecewise_checks_returns:
  assumes "piecewise_checks validate j s warn w = (Inr u, w1)"
  shows "j \<noteq> JNull" and "s \<noteq> JNull"
proof -
  from assms obtain u0 w0 where g: "global_step validate j s warn w = (Inr u0, w0)"
    and t: "testcase_step validate j s warn w0 = (Inr u, w1)"
    unfolding piecewise_checks_def by (rule and_then_returns)
  from g obtain s_prop wa where "lift (subscript s ''properties'') w = (Inr s_prop, wa)"
    unfolding global_step_def by (rule and_then_returns)
  then have "subscript s ''properties'' = Inr s_prop" by (simp add: lift_def)
  then show "s \<noteq> JNull" by (rule subscript_returns)
  from t obtain testcases wb where "lift (subscript j ''testcases'') w0 = (Inr testcases, wb)"
    unfolding testcase_step_def by (rule and_then_returns)
  then have "subscript j ''testcases'' = Inr testcases" by (simp add: lift_def)
  then show "j \<noteq> JNull" by (rule subscript_returns)
qed

section \<open>Related programs\<close>

lemma related_lift: "related R (lift r) (lift r)"
  by (simp add: related_def lift_def)

lemma related_and_then:
  assumes p: "related R p q" and f: "\<And>a. related R (f a) (g a)"
  shows "related R (and_then p f) (and_then q g)"
  unfolding related_def
proof (intro allI impI)
  fix w w' assume R: "R w w'"
  obtain r w1 where pw: "p w = (r, w1)" by (cases "p w")
  obtain r' w1' where qw: "q w' = (r', w1')" by (cases "q w'")
  from p R have "fst (p w) = fst (q w') \<and> R (snd (p w)) (snd (q w'))"
    by (simp add: related_def)
  with pw qw have rr: "r' = r" and R1: "R w1 w1'"
    by simp_all
  show "fst (and_then p f w) = fst (and_then q g w') \<and>
        R (snd (and_then p f w)) (snd (and_then q g w'))"
  proof (cases r)
    case (Inl e)
    with pw qw rr R1 show ?thesis by (simp add: and_then_def)
  next
    case (Inr a)
    with pw qw rr have "and_then p f w = f a w1" "and_then q g w' = g a w1'"
      by (simp_all add: and_then_def)
    with f [of a] R1 show ?thesis by (simp add: related_def)
  qed
qed

lemma related_validate_keys:
  assumes "\<And>j s key prefix required.
             related R (validate_schema validate j s key prefix required wa)
                       (validate_schema validate j s key prefix required wb)"
  shows "related R (validate_keys validate j s keys prefix wa)
                   (validate_keys validate j s keys prefix wb)"
proof (induction keys)
  case Nil
  have "validate_keys validate j s [] prefix wa = lift (Inr ())"
       "validate_keys validate j s [] prefix wb = lift (Inr ())"
    by (rule ext, simp add: lift_def)+
  then show ?case by (simp add: related_lift)
next
  case (Cons key keys)
  show ?case
    unfolding validate_keys_Cons
    by (rule related_and_then) (rule assms, rule Cons.IH)
qed


lemma related_validate_each:
  assumes "\<And>j s key prefix required.
             related R (validate_schema validate j s key prefix required wa)
                       (validate_schema validate j s key prefix required wb)"
  shows "related R (validate_each validate cs s prefix wa)
                   (validate_each validate cs s prefix wb)"
proof (induction cs)
  case Nil
  have "validate_each validate [] s prefix wa = lift (Inr ())"
       "validate_each validate [] s prefix wb = lift (Inr ())"
    by (rule ext, simp add: lift_def)+
  then show ?case by (simp add: related_lift)
next
  case (Cons c cs)
  show ?case
    unfolding validate_each_Cons
    by (rule related_and_then) (rule assms, rule Cons.IH)
qed

lemma related_validate_validators:
  assumes "\<And>j s key prefix required.
             related R (validate_schema validate j s key prefix required wa)
                       (validate_schema validate j s key prefix required wb)"
  shows "related R (validate_validators validate vs abs_v spec_v prefix wa)
                   (validate_validators validate vs abs_v spec_v prefix wb)"
proof (induction vs)
  case Nil
  have "validate_validators validate [] abs_v spec_v prefix wa = lift (Inr ())"
       "validate_validators validate [] abs_v spec_v prefix wb = lift (Inr ())"
    by (rule ext, simp add: lift_def)+
  then show ?case by (simp add: related_lift)
next
  case (Cons v vs)
  show ?case
    unfolding validate_validators_Cons
    by (intro related_and_then assms Cons.IH)
qed

lemma related_try_extra_schemas:
  assumes "\<And>j s key prefix required.
             related R (validate_schema validate j s key prefix required wa)
                       (validate_schema validate j s key prefix required wb)"
  shows "related R (try_extra_schemas validate t schemas wa st)
                   (try_extra_schemas validate t schemas wb st)"
proof (induction schemas arbitrary: st)
  case Nil
  show ?case by (cases st) (simp add: related_def)
next
  case (Cons extra_schema rest)
  obtain n success where st: "st = (n, success)" by (cases st)
  show ?case
    unfolding related_def st
  proof (intro allI impI)
    fix w w' assume R: "R w w'"
    let ?p = "validate_schema validate t extra_schema [] [] False wa"
    let ?q = "validate_schema validate t extra_schema [] [] False wb"
    from assms R have pq: "fst (?p w) = fst (?q w') \<and> R (snd (?p w)) (snd (?q w'))"
      by (simp add: related_def)
    obtain r w1 where pw: "?p w = (r, w1)" by (cases "?p w")
    obtain r' w1' where qw: "?q w' = (r', w1')" by (cases "?q w'")
    from pq pw qw have rr: "r' = r" and R1: "R w1 w1'" by simp_all
    have IH: "\<And>st. fst (try_extra_schemas validate t rest wa st w1) =
                     fst (try_extra_schemas validate t rest wb st w1') \<and>
                   R (snd (try_extra_schemas validate t rest wa st w1))
                     (snd (try_extra_schemas validate t rest wb st w1'))"
      using Cons.IH R1 by (simp add: related_def)
    show "fst (try_extra_schemas validate t (extra_schema # rest) wa (n, success) w) =
          fst (try_extra_schemas validate t (extra_schema # rest) wb (n, success) w') \<and>
          R (snd (try_extra_schemas validate t (extra_schema # rest) wa (n, success) w))
            (snd (try_extra_schemas validate t (extra_schema # rest) wb (n, success) w'))"
    proof (cases r)
      case (Inr u)
      with pw qw rr IH show ?thesis by simp
    next
      case (Inl e)
      with pw qw rr IH R1 show ?thesis by (cases e) simp_all
    qed
  qed
qed

lemma related_regular_testcase:
  assumes "\<And>j s key prefix required.
             related R (validate_schema validate j s key prefix required wa)
                       (validate_schema validate j s key prefix required wb)"
  shows "related R (regular_testcase validate d t n wa) (regular_testcase validate d t n wb)"
  unfolding regular_testcase_def Let_def
  by (intro related_and_then related_lift assms related_validate_keys
        related_validate_each related_validate_validators)

lemma related_validate_testcase:
  assumes "\<And>j s key prefix required.
             related R (validate_schema validate j s key prefix required wa)
                       (validate_schema validate j s key prefix required wb)"
  shows "related R (validate_testcase validate d t n wa) (validate_testcase validate d t n wb)"
  unfolding validate_testcase_def
proof (rule related_and_then)
  show "related R
          (try_extra_schemas validate t [sub_limit_schema d, filecheck_schema d] wa (n, False))
          (try_extra_schemas validate t [sub_limit_schema d, filecheck_schema d] wb (n, False))"
    by (rule related_try_extra_schemas) (rule assms)
next
  fix a :: "nat \<times> bool"
  obtain n' success where a: "a = (n', success)" by (cases a)
  show "related R
          (case a of (testcase_num', success) \<Rightarrow>
             if success then lift (Inr testcase_num')
             else regular_testcase validate d t testcase_num' wa)
          (case a of (testcase_num', success) \<Rightarrow>
             if success then lift (Inr testcase_num')
             else regular_testcase validate d t testcase_num' wb)"
    unfolding a using related_regular_testcase [OF assms] by (simp add: related_lift)
qed

lemma related_validate_testcases:
  assumes "\<And>j s key prefix required.
             related R (validate_schema validate j s key prefix required wa)
                       (validate_schema validate j s key prefix required wb)"
  shows "related R (validate_testcases validate d ts n wa) (validate_testcases validate d ts n wb)"
proof (induction ts arbitrary: n)
  case Nil
  have "validate_testcases validate d [] n wa = lift (Inr n)"
       "validate_testcases validate d [] n wb = lift (Inr n)"
    by (rule ext, simp add: lift_def)+
  then show ?case by (simp add: related_lift)
next
  case (Cons t ts)
  show ?case
    unfolding validate_testcases_Cons
    by (rule related_and_then) (rule related_validate_testcase [OF assms], rule Cons.IH)
qed

lemma related_load_definitions: "related R (load_definitions s) (load_definitions s)"
  unfolding load_definitions_def by (intro related_and_then related_lift)

lemma related_complete_config_validator:
  assumes "\<And>j s key prefix required.
             related R (validate_schema validate j s key prefix required wa)
                       (validate_schema validate j s key prefix required wb)"
  shows "related R (complete_config_validator validate j s wa)
                   (complete_config_validator validate j s wb)"
  unfolding complete_config_validator_def piecewise_checks_def global_step_def
    testcase_step_def
  by (intro related_and_then related_lift assms related_validate_keys
        related_validate_testcases related_load_definitions)

lemma validate_schema_warned:
  "related warned (validate_schema validate j s key prefix required True)
                  (validate_schema validate j s key prefix required False)"
  unfolding related_def
proof (intro allI impI)
  fix w w' assume "warned w w'"
  then obtain ws where ws: "stderr w = stderr w'" "matcher_calls w = matcher_calls w'"
    "stdout w = stdout w' @ ws" "list_all is_warning ws"
    by (auto simp: warned_def)
  let ?l = "''WARNING: could not identify '' @ (prefix @ '' '' @ key) @ '' ('' @ key @ '')''"
  have l: "list_all is_warning (ws @ [?l])"
    using ws(4) by (simp add: is_warning_def)
  have "stdout w @ [?l] = stdout w' @ (ws @ [?l])" using ws(3) by simp
  with l have ex: "\<exists>ws'. stdout w @ [?l] = stdout w' @ ws' \<and> list_all is_warning ws'"
    by blast
  from ws have ex0: "\<exists>ws'. stdout w = stdout w' @ ws' \<and> list_all is_warning ws'"
    by blast
  show "fst (validate_schema validate j s key prefix required True w) =
          fst (validate_schema validate j s key prefix required False w') \<and>
        warned (snd (validate_schema validate j s key prefix required True w))
          (snd (validate_schema validate j s key prefix required False w'))"
    using ws(1,2) ex ex0
    by (simp add: warned_def validate_schema_def print_stdout_def Let_def
          split: sum.splits prod.splits match_result.splits)
qed

lemma validate_schema_printed:
  "related (printed out err) (validate_schema validate j s key prefix required False)
                             (validate_schema validate j s key prefix required False)"
  by (auto simp: related_def printed_def validate_schema_def Let_def
        split: sum.splits prod.splits match_result.splits)

section \<open>The properties\<close>

lemmas sample_simps = sample_validate_def check_required_def of_type_def sample_sub_limit_def
  sample_filecheck_def sample_testcase_properties_def sample_testcase_schema_def
  sample_properties_def sample_definitions_def sample_schema_def sample_defs_def
  empty_world_def regular_entry_def

lemmas driver_simps = and_then_def lift_def subscript_def py_iter_def get_or_none_def
  resolve_def validate_schema_def new_SubmittySchemaException_def print_stdout_def
  global_keys_def testcase_keys_def regular_testcase_def validate_testcase_def
  schema_definition_def load_definitions_def global_step_def testcase_step_def
  piecewise_checks_def complete_config_validator_def Let_def

text \<open>
  C9. The parameter \<open>required\<close> of \<^verbatim>\<open>validate_schema\<close> has no effect: with every
  Matcher, document, schema, key, prefix, \<open>warn\<close> and world, the call with
  \<open>required = True\<close> returns or raises, prints and calls the Matcher exactly as the
  call with \<open>required = False\<close>.
\<close>
theorem validate_schema_ignores_required:
  "validate_schema validate j s key prefix True warn w =
   validate_schema validate j s key prefix False warn w"
  by (simp add: validate_schema_def)

text \<open>Whenever the resolved schema chunk is \<^verbatim>\<open>None\<close>, lines 124-131 end in the
  AttributeError of the constructor.\<close>

lemma missing_schema_raises_AttributeError:
  assumes "resolve j s key = Inr (my_json_chunk, JNull)"
  shows "validate_schema validate j s key prefix required warn w = (Inl AttributeError, w)"
  using assms by (simp add: validate_schema_def new_SubmittySchemaException_def)

text \<open>
  C1. A key that the schema does not specify: \<^verbatim>\<open>validate_schema({"points": 5}, {},
  key="points")\<close>. Whatever the Matcher, the prefix, \<open>required\<close> and \<open>warn\<close> are, the
  call fails at once and leaves the world as it was, but what is raised is
  AttributeError, from line 16 of the constructor, and never a
  SubmittySchemaException.
\<close>
theorem missing_specification_raises_AttributeError:
  "validate_schema validate (JObj [(''points'', JInt 5)]) (JObj []) ''points'' prefix
     required warn w = (Inl AttributeError, w)
   \<and> (\<forall>v. fst (validate_schema validate (JObj [(''points'', JInt 5)]) (JObj []) ''points''
                 prefix required warn w) \<noteq> Inl (SubmittySchemaException v))"
proof -
  have "resolve (JObj [(''points'', JInt 5)]) (JObj []) ''points'' = Inr (JInt 5, JNull)"
    by (simp add: resolve_def get_or_none_def)
  then have "validate_schema validate (JObj [(''points'', JInt 5)]) (JObj []) ''points'' prefix
     required warn w = (Inl AttributeError, w)"
    by (rule missing_schema_raises_AttributeError)
  then show ?thesis by simp
qed

text \<open>
  C2, as the code has it. For a key that \<^verbatim>\<open>validate_schema\<close> is asked to check (the
  four global keys and the thirteen testcase keys of the driver), that the document
  lacks or binds to \<^verbatim>\<open>null\<close>, and that the schema specifies: the check returns
  without raising and without calling the Matcher; with \<open>warn = False\<close> it prints
  nothing, with \<open>warn = True\<close> it prints the one WARNING line.
\<close>
theorem absent_chunk_is_skipped:
  assumes "key \<noteq> []"
    and "get_or_none j key = Inr JNull"
    and "get_or_none s key = Inr my_schema"
    and "my_schema \<noteq> JNull"
  shows "validate_schema validate j s key prefix required warn w =
           (Inr (),
            if warn then
              print_stdout (''WARNING: could not identify '' @ prefix @ '' '' @ key
                              @ '' ('' @ key @ '')'') w
            else w)"
  using assms by (simp add: validate_schema_def resolve_def)

text \<open>The check of \<^verbatim>\<open>resource_limits\<close> on a document without that key, with
  and without \<open>warn\<close>.\<close>

theorem absent_chunk_is_skipped_witness:
  "validate_schema sample_validate (JObj [(''testcases'', JArr [])]) sample_properties
     ''resource_limits'' ''global'' True True empty_world =
   (Inr (), empty_world\<lparr>stdout :=
      [''WARNING: could not identify global resource_limits (resource_limits)'']\<rparr>)
   \<and> validate_schema sample_validate (JObj [(''testcases'', JArr [])]) sample_properties
     ''resource_limits'' ''global'' True False empty_world = (Inr (), empty_world)"
proof -
  have k: "''resource_limits'' \<noteq> []" by simp
  have a: "get_or_none (JObj [(''testcases'', JArr [])]) ''resource_limits'' = Inr JNull"
    by (simp add: get_or_none_def)
  have b: "get_or_none sample_properties ''resource_limits'' = Inr (of_type ''object'')"
    by (simp add: get_or_none_def sample_properties_def)
  have c: "of_type ''object'' \<noteq> JNull" by (simp add: of_type_def)
  show ?thesis
    using absent_chunk_is_skipped [OF k a b c, of sample_validate "''global''" True True empty_world]
      absent_chunk_is_skipped [OF k a b c, of sample_validate "''global''" True False empty_world]
    by (simp add: print_stdout_def empty_world_def)
qed

text \<open>
  C2 as it is stated, with \<^verbatim>\<open>testcases\<close>, \<^verbatim>\<open>containers\<close>, \<^verbatim>\<open>solution_containers\<close>
  and \<^verbatim>\<open>validation\<close> among the keys that may be absent, does not hold: the driver
  reads these four by subscript (lines 50, 86, 91 and 95). A document that conforms to
  the whole schema and has no \<^verbatim>\<open>testcases\<close> ends in \<^verbatim>\<open>KeyError: 'testcases'\<close>; one
  whose only testcase has no \<^verbatim>\<open>containers\<close> ends in \<^verbatim>\<open>KeyError: 'containers'\<close>.
\<close>

theorem absent_required_key_counterexample:
  "fst (complete_config_validator sample_validate
          (JObj [(''assignment_name'', JStr ''hw1'')]) sample_schema False empty_world) =
     Inl (KeyError ''testcases'')
   \<and> fst (complete_config_validator sample_validate
          (JObj [(''assignment_name'', JStr ''hw1''),
                 (''testcases'', JArr [JObj [(''points'', JInt 3)]])])
          sample_schema True empty_world) =
       Inl (KeyError ''containers'')"
  by (simp add: driver_simps sample_simps str_nat.simps)

text \<open>
  C5, as the code has it. When the Matcher rejects the resolved pair of chunks,
  \<^verbatim>\<open>validate_schema\<close> raises a SubmittySchemaException that carries exactly that
  document chunk and schema chunk, the message \<^verbatim>\<open>ERROR: <title> was not properly
  formatted\<close>, the title \<^verbatim>\<open>{prefix} {key}\<close> as formatted, not trimmed, and the
  Matcher's message; the Matcher has been called once, on that pair.
\<close>
theorem violation_report_contents:
  assumes "resolve j s key = Inr (my_json_chunk, my_schema)"
    and "my_schema \<noteq> JNull"
    and "my_json_chunk \<noteq> JNull"
    and "validate my_json_chunk my_schema = ValidationError detail"
  shows "validate_schema validate j s key prefix required warn w =
           (Inl (SubmittySchemaException
                   \<lparr>config_json = my_json_chunk, schema = my_schema,
                    my_message = Msg (''ERROR: '' @ prefix @ '' '' @ key
                                        @ '' was not properly formatted''),
                    title = prefix @ '' '' @ key,
                    schema_message = Some detail\<rparr>),
            w\<lparr>matcher_calls := matcher_calls w @ [(my_json_chunk, my_schema)]\<rparr>)"
  using assms by (simp add: validate_schema_def new_SubmittySchemaException_def)

text \<open>A testcase whose \<^verbatim>\<open>points\<close> is a string.\<close>

theorem violation_report_contents_witness:
  "validate_schema sample_validate (regular_entry (JStr ''ten'')) sample_testcase_properties
     ''points'' ''testcase_1'' True False empty_world =
   (Inl (SubmittySchemaException
           \<lparr>config_json = JStr ''ten'', schema = of_type ''integer'',
            my_message = Msg ''ERROR: testcase_1 points was not properly formatted'',
            title = ''testcase_1 points'',
            schema_message = Some ''not of type integer''\<rparr>),
    empty_world\<lparr>matcher_calls := [(JStr ''ten'', of_type ''integer'')]\<rparr>)"
proof -
  have a: "resolve (regular_entry (JStr ''ten'')) sample_testcase_properties ''points'' =
             Inr (JStr ''ten'', of_type ''integer'')"
    by (simp add: resolve_def get_or_none_def regular_entry_def sample_testcase_properties_def)
  have b: "of_type ''integer'' \<noteq> JNull" by (simp add: of_type_def)
  have c: "JStr ''ten'' \<noteq> JNull" by simp
  have d: "sample_validate (JStr ''ten'') (of_type ''integer'') =
             ValidationError ''not of type integer''"
    by (simp add: sample_validate_def of_type_def)
  show ?thesis
    using violation_report_contents
      [where validate = sample_validate and prefix = "''testcase_1''" and required = True
         and warn = False and w = empty_world, OF a b c d]
    by (simp add: empty_world_def)
qed

text \<open>
  C5 as stated fails on the whole-document call of line 106, where the key is
  empty: the title ends in a space, which trimming would remove, and the message
  has \<^verbatim>\<open>ERROR: \<close> before the title.
\<close>

theorem title_is_not_trimmed_counterexample:
  "validate_schema sample_validate (JInt 5) (of_type ''string'') [] ''Your config json''
     True False empty_world =
   (Inl (SubmittySchemaException
           \<lparr>config_json = JInt 5, schema = of_type ''string'',
            my_message = Msg ''ERROR: Your config json  was not properly formatted'',
            title = ''Your config json '',
            schema_message = Some ''not of type string''\<rparr>),
    empty_world\<lparr>matcher_calls := [(JInt 5, of_type ''string'')]\<rparr>)
   \<and> ''Your config json '' \<noteq> trimmed (''Your config json'' @ '' '' @ [])
   \<and> ''ERROR: Your config json  was not properly formatted'' \<noteq>
       trimmed (''Your config json'' @ '' '' @ []) @ '' was not properly formatted''"
  by (simp add: validate_schema_def resolve_def new_SubmittySchemaException_def
        sample_validate_def of_type_def empty_world_def trimmed_def is_space_def)

text \<open>
  C6, as the code has it. \<^verbatim>\<open>print_human_readable_error\<close> appends to the error
  stream an empty line and the message followed by a colon; then, only when the
  report has a Matcher message, that message, a heading and the dump of the
  offending chunk. Nothing goes to the normal output and the Matcher is not called:
  the world changes in \<open>stderr\<close> alone.
\<close>
theorem print_human_readable_error_lines:
  "print_human_readable_error repr dumps self w =
     w\<lparr>stderr := stderr w @ [[], format_message repr (my_message self) @ '':'']
                  @ (case schema_message self of
                       None \<Rightarrow> []
                     | Some m \<Rightarrow>
                         [m, ''The portion of your configuration that caused the error is:'',
                          dumps (config_json self)])\<rparr>"
  by (simp add: print_human_readable_error_def print_stderr_def Let_def split: option.splits)

text \<open>
  C6 as stated fails on a report without a Matcher message (built from an error
  object whose \<^verbatim>\<open>message\<close> is \<^verbatim>\<open>None\<close>): two lines are printed and the dump is
  not among them.
\<close>

theorem dump_not_printed_counterexample:
  "stderr (print_human_readable_error id sample_dumps
             \<lparr>config_json = JObj [], schema = of_type ''object'',
              my_message = Msg ''ERROR: global autograding was not properly formatted'',
              title = ''global autograding'', schema_message = None\<rparr> empty_world) =
     [[], ''ERROR: global autograding was not properly formatted:'']
   \<and> sample_dumps (JObj []) \<notin>
       set (stderr (print_human_readable_error id sample_dumps
             \<lparr>config_json = JObj [], schema = of_type ''object'',
              my_message = Msg ''ERROR: global autograding was not properly formatted'',
              title = ''global autograding'', schema_message = None\<rparr> empty_world))"
  by (simp add: print_human_readable_error_def print_stderr_def Let_def empty_world_def
        sample_dumps_def)

text \<open>
  C8. \<open>warn\<close> does not change the outcome of \<^verbatim>\<open>complete_config_validator\<close>, and
  all it controls is the WARNING line of an absent chunk. With \<open>warn = True\<close> and
  with \<open>warn = False\<close> the run returns, or raises the same exception with the same
  report; the Matcher is called on the same pairs in the same order; the error
  stream is untouched. With \<open>warn = False\<close> nothing is printed to the normal
  output; with \<open>warn = True\<close> the normal output grows by WARNING lines and nothing
  else. One call of \<^verbatim>\<open>validate_schema\<close> with \<open>warn = True\<close> prints exactly the one
  line \<^verbatim>\<open>WARNING: could not identify {prefix} {key} ({key})\<close> when the schema chunk
  is there and the document chunk is absent, and nothing in every other case; with
  \<open>warn = False\<close> it prints nothing.
\<close>

theorem warn_does_not_change_the_outcome:
  "fst (complete_config_validator validate j s True w) =
     fst (complete_config_validator validate j s False w)
   \<and> matcher_calls (snd (complete_config_validator validate j s True w)) =
       matcher_calls (snd (complete_config_validator validate j s False w))
   \<and> stderr (snd (complete_config_validator validate j s True w)) = stderr w
   \<and> stderr (snd (complete_config_validator validate j s False w)) = stderr w
   \<and> stdout (snd (complete_config_validator validate j s False w)) = stdout w
   \<and> (\<exists>ws. stdout (snd (complete_config_validator validate j s True w)) = stdout w @ ws
           \<and> list_all is_warning ws)
   \<and> stdout (snd (validate_schema validate c cs key prefix required True w)) =
       stdout w @
         (case resolve c cs key of
            Inl e \<Rightarrow> []
          | Inr (my_json_chunk, my_schema) \<Rightarrow>
              if my_schema \<noteq> JNull \<and> my_json_chunk = JNull
              then [''WARNING: could not identify '' @ prefix @ '' '' @ key
                      @ '' ('' @ key @ '')'']
              else [])
   \<and> stdout (snd (validate_schema validate c cs key prefix required False w)) = stdout w"
proof -
  have "related warned (complete_config_validator validate j s True)
                       (complete_config_validator validate j s False)"
    by (rule related_complete_config_validator) (rule validate_schema_warned)
  moreover have "warned w w" by (simp add: warned_def)
  ultimately have a:
    "fst (complete_config_validator validate j s True w) =
       fst (complete_config_validator validate j s False w)"
    "warned (snd (complete_config_validator validate j s True w))
       (snd (complete_config_validator validate j s False w))"
    by (simp_all add: related_def)
  have "related (printed (stdout w) (stderr w)) (complete_config_validator validate j s False)
                                   (complete_config_validator validate j s False)"
    by (rule related_complete_config_validator) (rule validate_schema_printed)
  moreover have "printed (stdout w) (stderr w) w w" by (simp add: printed_def)
  ultimately have b:
    "printed (stdout w) (stderr w) (snd (complete_config_validator validate j s False w))
       (snd (complete_config_validator validate j s False w))"
    by (simp add: related_def)
  have c: "stdout (snd (validate_schema validate c cs key prefix required True w)) =
       stdout w @
         (case resolve c cs key of
            Inl e \<Rightarrow> []
          | Inr (my_json_chunk, my_schema) \<Rightarrow>
              if my_schema \<noteq> JNull \<and> my_json_chunk = JNull
              then [''WARNING: could not identify '' @ prefix @ '' '' @ key
                      @ '' ('' @ key @ '')'']
              else [])"
    by (simp add: validate_schema_def print_stdout_def Let_def new_SubmittySchemaException_def
          split: sum.splits prod.splits match_result.splits)
  have d: "stdout (snd (validate_schema validate c cs key prefix required False w)) = stdout w"
    by (simp add: validate_schema_def print_stdout_def Let_def new_SubmittySchemaException_def
          split: sum.splits prod.splits match_result.splits)
  from a b c d show ?thesis by (simp add: warned_def printed_def)
qed

text \<open>A run with \<open>warn = True\<close> on a document without any of the four global keys:
  the outcome is that of the run with \<open>warn = False\<close>, and four WARNING lines are
  printed.\<close>

theorem warn_does_not_change_the_outcome_witness:
  "fst (complete_config_validator sample_validate (JObj [(''testcases'', JArr [])])
          sample_schema True empty_world) =
     fst (complete_config_validator sample_validate (JObj [(''testcases'', JArr [])])
            sample_schema False empty_world)
   \<and> stdout (snd (complete_config_validator sample_validate
                      (JObj [(''testcases'', JArr [])]) sample_schema False empty_world)) = []
   \<and> stdout (snd (complete_config_validator sample_validate
                      (JObj [(''testcases'', JArr [])]) sample_schema True empty_world)) =
       [''WARNING: could not identify global autograding (autograding)'',
        ''WARNING: could not identify global autograding_method (autograding_method)'',
        ''WARNING: could not identify global container_options (container_options)'',
        ''WARNING: could not identify global resource_limits (resource_limits)'']
   \<and> stdout (snd (validate_schema sample_validate (JObj [(''testcases'', JArr [])])
                      sample_properties ''resource_limits'' ''global'' True True
                      empty_world)) =
       [''WARNING: could not identify global resource_limits (resource_limits)'']"
proof -
  have r: "resolve (JObj [(''testcases'', JArr [])]) sample_properties ''resource_limits'' =
             Inr (JNull, of_type ''object'')"
    by (simp add: resolve_def get_or_none_def sample_properties_def)
  have t: "stdout (snd (complete_config_validator sample_validate
                      (JObj [(''testcases'', JArr [])]) sample_schema True empty_world)) =
       [''WARNING: could not identify global autograding (autograding)'',
        ''WARNING: could not identify global autograding_method (autograding_method)'',
        ''WARNING: could not identify global container_options (container_options)'',
        ''WARNING: could not identify global resource_limits (resource_limits)'']"
    by (simp add: driver_simps sample_simps)
  have e: "stdout empty_world = []" by (simp add: empty_world_def)
  from warn_does_not_change_the_outcome
         [where validate = sample_validate and j = "JObj [(''testcases'', JArr [])]"
            and s = sample_schema and w = empty_world
            and c = "JObj [(''testcases'', JArr [])]" and cs = sample_properties
            and key = "''resource_limits''" and prefix = "''global''" and required = True]
  show ?thesis by (simp add: r t e of_type_def)
qed

text \<open>
  C3, as the code has it. The loop of lines 66-72 has no \<^verbatim>\<open>break\<close>, although the
  comment above it says that the submission limit is checked first and short
  circuits. For a testcase that is not \<^verbatim>\<open>null\<close> and that the Matcher accepts under
  the submission-limit schema, one pass of the testcase loop calls the Matcher twice,
  on (testcase, submission-limit schema) and then on (testcase, filecheck schema),
  and applies none of the checks of a regular testcase. \<^verbatim>\<open>testcase_num\<close> grows by
  two when the filecheck schema accepts the testcase as well and by one when it
  rejects it; when the Matcher finds the filecheck schema itself invalid the run ends
  in that error.
\<close>
theorem submission_limit_match_still_tries_filecheck:
  assumes "t \<noteq> JNull"
    and "sub_limit_schema d \<noteq> JNull"
    and "filecheck_schema d \<noteq> JNull"
    and "validate t (sub_limit_schema d) = Valid"
  shows "validate_testcase validate d t n warn w =
           (let w2 = w\<lparr>matcher_calls := matcher_calls w @
                        [(t, sub_limit_schema d), (t, filecheck_schema d)]\<rparr>
            in case validate t (filecheck_schema d) of
                 Valid \<Rightarrow> (Inr (n + 2), w2)
               | ValidationError m \<Rightarrow> (Inr (n + 1), w2)
               | InvalidSchema m \<Rightarrow> (Inl (SchemaError m), w2))"
  using assms
  by (simp add: validate_testcase_def validate_schema_def resolve_def and_then_def lift_def
        new_SubmittySchemaException_def Let_def split: match_result.splits)

text \<open>A testcase that both schemas accept moves the index from 1 to 3; one that only
  the submission-limit schema accepts moves it from 1 to 2; both are handed to the
  Matcher with the filecheck schema.\<close>

theorem submission_limit_match_still_tries_filecheck_witness:
  "validate_testcase sample_validate sample_defs
     (JObj [(''max_submissions'', JInt 20), (''actual_file'', JStr ''a.txt'')]) 1 False
     empty_world =
   (Inr 3, empty_world\<lparr>matcher_calls :=
      [(JObj [(''max_submissions'', JInt 20), (''actual_file'', JStr ''a.txt'')],
        sample_sub_limit),
       (JObj [(''max_submissions'', JInt 20), (''actual_file'', JStr ''a.txt'')],
        sample_filecheck)]\<rparr>)
   \<and> validate_testcase sample_validate sample_defs
     (JObj [(''max_submissions'', JInt 20)]) 1 False empty_world =
   (Inr 2, empty_world\<lparr>matcher_calls :=
      [(JObj [(''max_submissions'', JInt 20)], sample_sub_limit),
       (JObj [(''max_submissions'', JInt 20)], sample_filecheck)]\<rparr>)"
proof -
  let ?both = "JObj [(''max_submissions'', JInt 20), (''actual_file'', JStr ''a.txt'')]"
  let ?one = "JObj [(''max_submissions'', JInt 20)]"
  have a: "?both \<noteq> JNull" "?one \<noteq> JNull" by simp_all
  have b: "sub_limit_schema sample_defs \<noteq> JNull"
    by (simp add: sample_defs_def sample_sub_limit_def)
  have c: "filecheck_schema sample_defs \<noteq> JNull"
    by (simp add: sample_defs_def sample_filecheck_def)
  have d: "sample_validate ?both (sub_limit_schema sample_defs) = Valid"
    "sample_validate ?one (sub_limit_schema sample_defs) = Valid"
    by (simp_all add: sample_defs_def sample_sub_limit_def sample_validate_def
          check_required_def)
  have e: "sample_validate ?both sample_filecheck = Valid"
    "sample_validate ?one sample_filecheck =
       ValidationError ''actual_file is a required property''"
    by (simp_all add: sample_filecheck_def sample_validate_def check_required_def)
  have f: "sub_limit_schema sample_defs = sample_sub_limit"
    "filecheck_schema sample_defs = sample_filecheck"
    by (simp_all add: sample_defs_def)
  show ?thesis
    using submission_limit_match_still_tries_filecheck
            [where validate = sample_validate and d = sample_defs and n = 1
               and warn = False and w = empty_world, OF a(1) b c d(1)]
          submission_limit_match_still_tries_filecheck
            [where validate = sample_validate and d = sample_defs and n = 1
               and warn = False and w = empty_world, OF a(2) b c d(2)]
    by (simp add: e f empty_world_def Let_def)
qed

text \<open>
  C10. A testcase that is \<^verbatim>\<open>null\<close>, with a submission-limit schema and a filecheck
  schema that are there: both attempts of lines 66-72 return at lines 132-135, without
  a call of the Matcher, so the pass returns with \<^verbatim>\<open>testcase_num\<close> grown by two, the
  Matcher never called and, with \<open>warn = True\<close>, two WARNING lines printed; the loop
  over the testcases goes on with the next entry and the index plus two.
\<close>
theorem null_testcase_counts_twice:
  assumes "sub_limit_schema d \<noteq> JNull"
    and "filecheck_schema d \<noteq> JNull"
  shows "validate_testcase validate d JNull n warn w =
           (Inr (n + 2),
            if warn then
              print_stdout ''WARNING: could not identify   ()''
                (print_stdout ''WARNING: could not identify   ()'' w)
            else w)
         \<and> validate_testcases validate d (JNull # ts) n warn w =
             validate_testcases validate d ts (n + 2) warn
               (if warn then
                  print_stdout ''WARNING: could not identify   ()''
                    (print_stdout ''WARNING: could not identify   ()'' w)
                else w)"
  using assms
  by (simp add: validate_testcase_def validate_schema_def resolve_def and_then_def lift_def
        Let_def)

text \<open>A \<^verbatim>\<open>null\<close> testcase at index 1, with and without \<open>warn\<close>.\<close>

theorem null_testcase_counts_twice_witness:
  "validate_testcase sample_validate sample_defs JNull 1 True empty_world =
     (Inr 3, empty_world\<lparr>stdout := [''WARNING: could not identify   ()'',
                                      ''WARNING: could not identify   ()'']\<rparr>)
   \<and> validate_testcases sample_validate sample_defs [JNull] 1 False empty_world =
       (Inr 3, empty_world)"
proof -
  have b: "sub_limit_schema sample_defs \<noteq> JNull"
    by (simp add: sample_defs_def sample_sub_limit_def)
  have c: "filecheck_schema sample_defs \<noteq> JNull"
    by (simp add: sample_defs_def sample_filecheck_def)
  show ?thesis
    using null_testcase_counts_twice [OF b c, of sample_validate 1 True empty_world "[]"]
          null_testcase_counts_twice [OF b c, of sample_validate 1 False empty_world "[]"]
    by (simp add: print_stdout_def empty_world_def)
qed



text \<open>
  C4, as the code has it. The whole document is validated against the whole schema
  when, and only when, everything before has returned (lines 43-104); it is then the
  last call of the Matcher, and a document that the Matcher rejects there raises the
  report of the whole document. When a statement before raises, the run ends in
  that exception and line 106 is not reached.
\<close>
theorem whole_document_validation_follows_piecewise_checks:
  "(piecewise_checks validate j s warn w = (Inr (), w1) \<longrightarrow>
      complete_config_validator validate j s warn w =
        (let w2 = w1\<lparr>matcher_calls := matcher_calls w1 @ [(j, s)]\<rparr>
         in case validate j s of
              Valid \<Rightarrow> (Inr (), w2)
            | ValidationError detail \<Rightarrow>
                (Inl (SubmittySchemaException
                        \<lparr>config_json = j, schema = s,
                         my_message =
                           Msg ''ERROR: Your config json  was not properly formatted'',
                         title = ''Your config json '',
                         schema_message = Some detail\<rparr>), w2)
            | InvalidSchema m \<Rightarrow> (Inl (SchemaError m), w2)))
   \<and> (piecewise_checks validate j s warn w = (Inl e, w1) \<longrightarrow>
        complete_config_validator validate j s warn w = (Inl e, w1))"
proof (intro conjI impI)
  assume p: "piecewise_checks validate j s warn w = (Inr (), w1)"
  then have js: "j \<noteq> JNull" "s \<noteq> JNull" by (rule piecewise_checks_returns)+
  from p have "complete_config_validator validate j s warn w =
                 validate_schema validate j s [] ''Your config json'' True warn w1"
    unfolding complete_config_validator_def by (rule and_then_Inr)
  with js show "complete_config_validator validate j s warn w =
        (let w2 = w1\<lparr>matcher_calls := matcher_calls w1 @ [(j, s)]\<rparr>
         in case validate j s of
              Valid \<Rightarrow> (Inr (), w2)
            | ValidationError detail \<Rightarrow>
                (Inl (SubmittySchemaException
                        \<lparr>config_json = j, schema = s,
                         my_message =
                           Msg ''ERROR: Your config json  was not properly formatted'',
                         title = ''Your config json '',
                         schema_message = Some detail\<rparr>), w2)
            | InvalidSchema m \<Rightarrow> (Inl (SchemaError m), w2))"
    by (simp add: validate_schema_def resolve_def new_SubmittySchemaException_def Let_def
          split: match_result.splits)
next
  assume "piecewise_checks validate j s warn w = (Inl e, w1)"
  then show "complete_config_validator validate j s warn w = (Inl e, w1)"
    unfolding complete_config_validator_def by (rule and_then_Inl)
qed

text \<open>A document that passes every piecewise check and lacks the
  \<^verbatim>\<open>assignment_name\<close> that the whole schema requires; and a document whose
  \<^verbatim>\<open>resource_limits\<close> is wrong.\<close>

theorem whole_document_validation_follows_piecewise_checks_witness:
  "fst (complete_config_validator sample_validate
          (JObj [(''resource_limits'', JObj []),
                 (''testcases'', JArr [regular_entry (JInt 3)])])
          sample_schema False empty_world) =
     Inl (SubmittySchemaException
            \<lparr>config_json = JObj [(''resource_limits'', JObj []),
                                  (''testcases'', JArr [regular_entry (JInt 3)])],
             schema = sample_schema,
             my_message = Msg ''ERROR: Your config json  was not properly formatted'',
             title = ''Your config json '',
             schema_message = Some ''assignment_name is a required property''\<rparr>)
   \<and> matcher_calls (snd (complete_config_validator sample_validate
          (JObj [(''resource_limits'', JObj []),
                 (''testcases'', JArr [regular_entry (JInt 3)])])
          sample_schema False empty_world)) =
       matcher_calls (snd (piecewise_checks sample_validate
          (JObj [(''resource_limits'', JObj []),
                 (''testcases'', JArr [regular_entry (JInt 3)])])
          sample_schema False empty_world)) @
       [(JObj [(''resource_limits'', JObj []),
               (''testcases'', JArr [regular_entry (JInt 3)])], sample_schema)]
   \<and> complete_config_validator sample_validate
          (JObj [(''resource_limits'', JInt 5), (''testcases'', JArr [])])
          sample_schema False empty_world =
       (Inl (SubmittySchemaException
               \<lparr>config_json = JInt 5, schema = of_type ''object'',
                my_message = Msg ''ERROR: global resource_limits was not properly formatted'',
                title = ''global resource_limits'',
                schema_message = Some ''not of type object''\<rparr>),
        empty_world\<lparr>matcher_calls := [(JInt 5, of_type ''object'')]\<rparr>)"
proof -
  let ?D = "JObj [(''resource_limits'', JObj []),
                  (''testcases'', JArr [regular_entry (JInt 3)])]"
  let ?E = "JObj [(''resource_limits'', JInt 5), (''testcases'', JArr [])]"
  have "fst (piecewise_checks sample_validate ?D sample_schema False empty_world) = Inr ()"
    by (simp add: driver_simps sample_simps str_nat.simps)
  then obtain w1 where
    p: "piecewise_checks sample_validate ?D sample_schema False empty_world = (Inr (), w1)"
    by (cases "piecewise_checks sample_validate ?D sample_schema False empty_world") simp
  have v: "sample_validate ?D sample_schema =
             ValidationError ''assignment_name is a required property''"
    by (simp add: sample_validate_def sample_schema_def check_required_def)
  have q: "piecewise_checks sample_validate ?E sample_schema False empty_world =
       (Inl (SubmittySchemaException
               \<lparr>config_json = JInt 5, schema = of_type ''object'',
                my_message = Msg ''ERROR: global resource_limits was not properly formatted'',
                title = ''global resource_limits'',
                schema_message = Some ''not of type object''\<rparr>),
        empty_world\<lparr>matcher_calls := [(JInt 5, of_type ''object'')]\<rparr>)"
    by (simp add: driver_simps sample_simps)
  from whole_document_validation_follows_piecewise_checks
         [where validate = sample_validate and j = ?D and s = sample_schema and warn = False
            and w = empty_world and ?w1.0 = w1, THEN conjunct1, rule_format, OF p]
       whole_document_validation_follows_piecewise_checks
         [where validate = sample_validate and j = ?E and s = sample_schema and warn = False
            and w = empty_world, THEN conjunct2, rule_format, OF q]
  show ?thesis by (simp add: v p Let_def)
qed

text \<open>
  C4 as it is stated, for every run, does not hold: on a document with a wrong
  \<^verbatim>\<open>resource_limits\<close> the run ends at the global step; the Matcher is called once,
  on that chunk, and never on the whole document, which it would reject.
\<close>

theorem whole_document_validation_skipped_counterexample:
  "fst (complete_config_validator sample_validate
          (JObj [(''resource_limits'', JInt 5), (''testcases'', JArr [])])
          sample_schema False empty_world) =
     Inl (SubmittySchemaException
            \<lparr>config_json = JInt 5, schema = of_type ''object'',
             my_message = Msg ''ERROR: global resource_limits was not properly formatted'',
             title = ''global resource_limits'',
             schema_message = Some ''not of type object''\<rparr>)
   \<and> matcher_calls (snd (complete_config_validator sample_validate
          (JObj [(''resource_limits'', JInt 5), (''testcases'', JArr [])])
          sample_schema False empty_world)) = [(JInt 5, of_type ''object'')]
   \<and> (JObj [(''resource_limits'', JInt 5), (''testcases'', JArr [])], sample_schema)
       \<notin> set (matcher_calls (snd (complete_config_validator sample_validate
          (JObj [(''resource_limits'', JInt 5), (''testcases'', JArr [])])
          sample_schema False empty_world)))
   \<and> sample_validate (JObj [(''resource_limits'', JInt 5), (''testcases'', JArr [])])
        sample_schema = ValidationError ''assignment_name is a required property''"
  by (simp add: driver_simps sample_simps)

end
